theory Spec2Isabelle
  imports Main
begin

section \<open>The store of matrix-appservice-discord (src/store.ts)\<close>

text \<open>
  A shallow embedding of the class \<open>DiscordStore\<close>. Everything the class reaches through
  an import is a parameter of the model:
  \<^item> the database behind the connector, the file system and whatever else the
    collaborators touch is a state \<open>'w\<close> that every operation takes and returns;
  \<^item> a connector (\<open>IDatabaseConnector\<close>) is a record with one field for each database
    call that the modelled methods make;
  \<^item> a migration step (\<open>IDbSchema\<close>) is a record of its two actions;
  \<^item> a thrown value is its message; an action that may throw returns
    \<open>error option\<close> (\<open>Some\<close> the thrown value) with the state it leaves behind.
  Schema versions are JavaScript numbers that hold integers (the control table's column is
  an integer column), so they are \<open>int\<close> here. The calls of the logger are left out, except
  in \<open>backupDatabase\<close>, where the line logged tells which branch was taken, and in \<open>Get\<close>,
  where making the line converts values that may have no string form. Constructors of the
  collaborators' classes are taken to return.
\<close>

subsection \<open>Collaborators\<close>

type_synonym error = string

text \<open>
  The connector calls of the modelled methods: \<open>Open()\<close>, \<open>Get(`SELECT version FROM schema`)\<close>
  (the selected column of the row, \<open>None\<close> when no row came back),
  \<open>Get(`SELECT token FROM discord_id_token WHERE discord_id = $discordId`)\<close> and
  \<open>Run(`UPDATE schema SET version = $ver`)\<close>.
\<close>

record 'w connector =
  db_Open :: "'w \<Rightarrow> error option \<times> 'w"
  db_Get_version :: "'w \<Rightarrow> error + int option"
  db_Get_token :: "string \<Rightarrow> 'w \<Rightarrow> error + string option"
  db_Run_set_version :: "int \<Rightarrow> 'w \<Rightarrow> error option \<times> 'w"

text \<open>An instance of a schema class \<open>./db/schema/v<n>.js\<close>.\<close>

record 'w schema =
  description :: string
  run :: "'w \<Rightarrow> error option \<times> 'w"
  rollBack :: "'w \<Rightarrow> error option \<times> 'w"

text \<open>\<open>DiscordBridgeConfigDatabase\<close>: both fields may be absent.\<close>

record config =
  filename :: "string option"
  connString :: "string option"

text \<open>The fields of a \<open>DiscordStore\<close> that the modelled methods read or assign.\<close>

record 'w store =
  config :: config
  db :: "'w connector option"

text \<open>
  What the module imports and loads: the two connector classes, and \<open>require\<close> of a schema
  module, which yields the class (its constructor, applied to the argument list) or fails
  when there is no such module.
\<close>

record ('w, 'c) modules =
  SQLite3 :: "string \<Rightarrow> 'w connector"
  Postgres :: "string \<Rightarrow> 'w connector"
  require_schema :: "int \<Rightarrow> ('c list \<Rightarrow> 'w schema) option"

subsection \<open>The schema version tracker\<close>

definition CURRENT_SCHEMA :: int where
  "CURRENT_SCHEMA = 10"

text \<open>
  \<open>getSchemaVersion\<close>: \<open>version\<close> starts at 0; the query and the read of \<open>.version\<close> are inside
  the \<open>try\<close>, so a failing query, an absent row (reading a property of \<open>null\<close> throws) and an
  unassigned \<open>this.db\<close> all leave the 0.
\<close>

definition getSchemaVersion :: "'w store \<Rightarrow> 'w \<Rightarrow> int" where
  "getSchemaVersion st w =
     (case db st of
        None \<Rightarrow> 0
      | Some d \<Rightarrow>
          (case db_Get_version d w of
             Inl er \<Rightarrow> 0
           | Inr None \<Rightarrow> 0
           | Inr (Some version) \<Rightarrow> version))"

text \<open>\<open>setSchemaVersion\<close>: one \<open>Run\<close>, nothing caught.\<close>

definition setSchemaVersion :: "'w store \<Rightarrow> int \<Rightarrow> 'w \<Rightarrow> error option \<times> 'w" where
  "setSchemaVersion st ver w =
     (case db st of
        None \<Rightarrow> (Some ''TypeError: Cannot read property 'Run' of undefined'', w)
      | Some d \<Rightarrow> db_Run_set_version d ver w)"

subsection \<open>Opening the database\<close>

text \<open>
  \<open>openDatabase\<close>: a non-empty file name selects SQLite, else a non-empty connection string
  selects Postgres, else \<open>this.db\<close> stays as it was. \<open>Open()\<close> runs inside the \<open>try\<close>, and so
  does the failure of calling it on an unassigned \<open>this.db\<close>. The two directory stores made
  after \<open>Open()\<close> are not fields of the model.
\<close>

definition select_connector :: "('w, 'c) modules \<Rightarrow> 'w store \<Rightarrow> 'w store" where
  "select_connector M st =
     (case filename (config st) of
        Some (c # cs) \<Rightarrow> st\<lparr>db := Some (SQLite3 M (c # cs))\<rparr>
      | _ \<Rightarrow>
          (case connString (config st) of
             Some (c # cs) \<Rightarrow> st\<lparr>db := Some (Postgres M (c # cs))\<rparr>
           | _ \<Rightarrow> st))"

definition openDatabase ::
  "('w, 'c) modules \<Rightarrow> 'w store \<Rightarrow> 'w \<Rightarrow> error option \<times> 'w store \<times> 'w" where
  "openDatabase M st w =
     (let st1 = select_connector M st in
      case db st1 of
        None \<Rightarrow>
          (Some ''Couldn't open database. The appservice won't be able to continue.'', st1, w)
      | Some d \<Rightarrow>
          (case db_Open d w of
             (Some ex, w1) \<Rightarrow>
               (Some ''Couldn't open database. The appservice won't be able to continue.'',
                st1, w1)
           | (None, w1) \<Rightarrow> (None, st1, w1)))"

subsection \<open>The migration runner\<close>

text \<open>
  The calls that \<open>init\<close> makes on a schema class and on the version tracker, in the order it
  makes them, each with its outcome: the model returns this list beside the result, so that
  a statement about which call came before which is a statement about a list.
\<close>

datatype 'c event =
    Construct int "'c list"
  | Run int "error option"
  | RollBack int "error option"
  | SetSchemaVersion int "error option"

text \<open>The argument list of \<open>new schemaClass(...)\<close> for a version.\<close>

definition constructor_args :: "'c \<Rightarrow> 'c \<Rightarrow> int \<Rightarrow> 'c list" where
  "constructor_args roomStore userStore version =
     (if version = 8 then [roomStore]
      else if version = 9 then [userStore]
      else [])"

text \<open>
  The \<open>while\<close> loop of \<open>init\<close>, from the test of its condition. The version grows by one in
  every round and the target is fixed, which is the termination argument.
\<close>

function init_loop ::
  "('w, 'c) modules \<Rightarrow> 'w store \<Rightarrow> 'c \<Rightarrow> 'c \<Rightarrow> int \<Rightarrow> int \<Rightarrow> 'w
     \<Rightarrow> (error + unit) \<times> 'w \<times> 'c event list" where
  "init_loop M st roomStore userStore targetSchema version w =
     (if version < targetSchema then
        (case require_schema M (version + 1) of
           None \<Rightarrow> (Inl ''Cannot find module'', w, [])
         | Some schemaClass \<Rightarrow>
             (let args = constructor_args roomStore userStore (version + 1);
                  schema = schemaClass args
              in case run schema w of
                   (Some ex, w1) \<Rightarrow>
                     (case rollBack schema w1 of
                        (Some ex2, w2) \<Rightarrow>
                          (Inl ''Failure to update to latest schema. And failed to rollback.'',
                           w2,
                           [Construct (version + 1) args, Run (version + 1) (Some ex),
                            RollBack (version + 1) (Some ex2)])
                      | (None, w2) \<Rightarrow>
                          (Inl ''Failure to update to latest schema.'',
                           w2,
                           [Construct (version + 1) args, Run (version + 1) (Some ex),
                            RollBack (version + 1) None]))
                 | (None, w1) \<Rightarrow>
                     (case setSchemaVersion st (version + 1) w1 of
                        (Some er, w2) \<Rightarrow>
                          (Inl er, w2,
                           [Construct (version + 1) args, Run (version + 1) None,
                            SetSchemaVersion (version + 1) (Some er)])
                      | (None, w2) \<Rightarrow>
                          (case init_loop M st roomStore userStore targetSchema (version + 1) w2 of
                             (res, w3, evs) \<Rightarrow>
                               (res, w3,
                                [Construct (version + 1) args, Run (version + 1) None,
                                 SetSchemaVersion (version + 1) None] @ evs)))))
      else (Inr (), w, []))"
  by pat_completeness auto
termination
  by (relation "measure (\<lambda>(M, st, roomStore, userStore, targetSchema, version, w).
                  nat (targetSchema - version))") auto

declare init_loop.simps [simp del]

text \<open>\<open>overrideSchema || CURRENT_SCHEMA\<close>: 0 is the falsy number (and the default).\<close>

definition targetSchema :: "int \<Rightarrow> int" where
  "targetSchema overrideSchema =
     (if overrideSchema = 0 then CURRENT_SCHEMA else overrideSchema)"

text \<open>\<open>init\<close>: open the database, read the version, choose the target, run the loop.\<close>

definition init ::
  "('w, 'c) modules \<Rightarrow> 'w store \<Rightarrow> int \<Rightarrow> 'c \<Rightarrow> 'c \<Rightarrow> 'w
     \<Rightarrow> (error + unit) \<times> 'w store \<times> 'w \<times> 'c event list" where
  "init M st overrideSchema roomStore userStore w =
     (case openDatabase M st w of
        (Some er, st1, w1) \<Rightarrow> (Inl er, st1, w1, [])
      | (None, st1, w1) \<Rightarrow>
          (let version = getSchemaVersion st1 w1 in
           case init_loop M st1 roomStore userStore (targetSchema overrideSchema) version w1 of
             (res, w2, evs) \<Rightarrow> (res, st1, w2, evs)))"

subsection \<open>Reading the list of calls\<close>

text \<open>The version that a call is about.\<close>

fun step_of :: "'c event \<Rightarrow> int" where
  "step_of (Construct v args) = v"
| "step_of (Run v r) = v"
| "step_of (RollBack v r) = v"
| "step_of (SetSchemaVersion v r) = v"

text \<open>The versions that \<open>setSchemaVersion\<close> was called with, in the order of the calls.\<close>

fun set_versions :: "'c event list \<Rightarrow> int list" where
  "set_versions [] = []"
| "set_versions (SetSchemaVersion v r # evs) = v # set_versions evs"
| "set_versions (ev # evs) = set_versions evs"

text \<open>
  The persisted version after a list of calls, for a run that started at version \<open>v\<close>: the
  argument of the last \<open>setSchemaVersion\<close> that returned, or \<open>v\<close> when there was none.
\<close>

fun persisted :: "int \<Rightarrow> 'c event list \<Rightarrow> int" where
  "persisted v [] = v"
| "persisted v (SetSchemaVersion n None # evs) = persisted n evs"
| "persisted v (ev # evs) = persisted v evs"

text \<open>The version that \<open>init\<close> reads before its loop.\<close>

definition starting_version :: "('w, 'c) modules \<Rightarrow> 'w store \<Rightarrow> 'w \<Rightarrow> int" where
  "starting_version M st w =
     (case openDatabase M st w of (r, st1, w1) \<Rightarrow> getSchemaVersion st1 w1)"

subsection \<open>Tokens\<close>

text \<open>
  \<open>getToken\<close>: \<open>row ? row.token : ""\<close>; whatever the query throws is logged and thrown
  again.
\<close>

definition getToken :: "'w store \<Rightarrow> string \<Rightarrow> 'w \<Rightarrow> error + string" where
  "getToken st discordId w =
     (case db st of
        None \<Rightarrow> Inl ''TypeError: Cannot read property 'Get' of undefined''
      | Some d \<Rightarrow>
          (case db_Get_token d discordId w of
             Inl err \<Rightarrow> Inl err
           | Inr None \<Rightarrow> Inr ''''
           | Inr (Some token) \<Rightarrow> Inr token))"

subsection \<open>The record gateway\<close>

text \<open>
  A class that implements \<open>IDbData\<close>: its constructor without arguments, and its four
  methods as functions of the instance's fields \<open>'e\<close>, which they may assign, and of the
  state behind the store. What a method throws is any value, of a type \<open>'x\<close>.
\<close>

record ('w, 'p, 'e, 'x) IDbData =
  construct :: 'e
  RunQuery :: "'e \<Rightarrow> 'p \<Rightarrow> 'w \<Rightarrow> 'x option \<times> 'e \<times> 'w"
  data_Insert :: "'e \<Rightarrow> 'w \<Rightarrow> 'x option \<times> 'e \<times> 'w"
  data_Update :: "'e \<Rightarrow> 'w \<Rightarrow> 'x option \<times> 'e \<times> 'w"
  data_Delete :: "'e \<Rightarrow> 'w \<Rightarrow> 'x option \<times> 'e \<times> 'w"

text \<open>
  The string of a value inside a template literal, \<open>`${v}`\<close>: the conversion calls into the
  value and throws when the value has no string form (an object without a prototype, for
  one). It is a parameter, one function for the query parameters and one for thrown
  values.
\<close>

record ('p, 'x) template =
  params_string :: "'p \<Rightarrow> 'x + string"
  thrown_string :: "'x \<Rightarrow> 'x + string"

text \<open>
  \<open>Get\<close>. The instance is made and the first line is logged outside the \<open>try\<close>: that line
  has \<open>${params}\<close> in it. The query runs inside the \<open>try\<close>. The \<open>catch\<close> logs a line with
  \<open>${params}\<close> and \<open>${ex}\<close> in it and returns \<open>null\<close> (\<open>None\<close>); what a conversion throws
  there leaves \<open>Get\<close>, as nothing catches it. The other strings of the three lines are the
  name of the class and constants.
\<close>

definition Get ::
  "('p, 'x) template \<Rightarrow> ('w, 'p, 'e, 'x) IDbData \<Rightarrow> 'p \<Rightarrow> 'w
     \<Rightarrow> ('x + 'e option) \<times> 'w" where
  "Get S dbType params w =
     (let dType = construct dbType in
      case params_string S params of
        Inl err \<Rightarrow> (Inl err, w)
      | Inr line \<Rightarrow>
          (case RunQuery dbType dType params w of
             (None, dType', w') \<Rightarrow> (Inr (Some dType'), w')
           | (Some ex, dType', w') \<Rightarrow>
               (case params_string S params of
                  Inl err \<Rightarrow> (Inl err, w')
                | Inr line' \<Rightarrow>
                    (case thrown_string S ex of
                       Inl err \<Rightarrow> (Inl err, w')
                     | Inr reason \<Rightarrow> (Inr None, w')))))"

text \<open>
  \<open>Insert\<close>, \<open>Update\<close>, \<open>Delete\<close>: one awaited call each, with no \<open>try\<close> around it. The
  line each logs has the name of the class in it and nothing else that is converted.
\<close>

definition Insert ::
  "('w, 'p, 'e, 'x) IDbData \<Rightarrow> 'e \<Rightarrow> 'w \<Rightarrow> ('x + unit) \<times> 'e \<times> 'w" where
  "Insert dbType data w =
     (case data_Insert dbType data w of
        (None, data', w') \<Rightarrow> (Inr (), data', w')
      | (Some ex, data', w') \<Rightarrow> (Inl ex, data', w'))"

definition Update ::
  "('w, 'p, 'e, 'x) IDbData \<Rightarrow> 'e \<Rightarrow> 'w \<Rightarrow> ('x + unit) \<times> 'e \<times> 'w" where
  "Update dbType data w =
     (case data_Update dbType data w of
        (None, data', w') \<Rightarrow> (Inr (), data', w')
      | (Some ex, data', w') \<Rightarrow> (Inl ex, data', w'))"

definition Delete ::
  "('w, 'p, 'e, 'x) IDbData \<Rightarrow> 'e \<Rightarrow> 'w \<Rightarrow> ('x + unit) \<times> 'e \<times> 'w" where
  "Delete dbType data w =
     (case data_Delete dbType data w of
        (None, data', w') \<Rightarrow> (Inr (), data', w')
      | (Some ex, data', w') \<Rightarrow> (Inl ex, data', w'))"

subsection \<open>The classes as the steps are to be constructed\<close>

text \<open>
  The modules in which every schema class disregards the arguments of its constructor
  and makes the instance that, constructed by the given class, the room store alone gives
  for version 8, the user store alone for version 9, and no argument for any other
  version. A run of \<open>init\<close> on these modules is a run in which each step is constructed as
  the specification says it is.
\<close>

definition with_collaborators :: "'c \<Rightarrow> 'c \<Rightarrow> ('w, 'c) modules \<Rightarrow> ('w, 'c) modules" where
  "with_collaborators roomStore userStore M =
     M\<lparr>require_schema :=
         (\<lambda>version. case require_schema M version of
                      None \<Rightarrow> None
                    | Some schemaClass \<Rightarrow>
                        Some (\<lambda>args. schemaClass
                                (if version = 8 then [roomStore]
                                 else if version = 9 then [userStore]
                                 else [])))\<rparr>"

subsection \<open>The backup\<close>

text \<open>
  The file system is a map from paths to contents, and the model gives the files as they
  are once the two streams have come to rest. Of Node's \<open>fs\<close> it takes this much:
  \<open>fs.access\<close> calls back with \<open>null\<close> exactly when the path exists;
  \<open>createWriteStream\<close> creates its file or empties the one that is there;
  \<open>createReadStream\<close> on a missing file emits \<open>error\<close> and nothing is piped;
  otherwise the bytes of the source arrive in the target, which then closes.
\<close>

type_synonym files = "string \<rightharpoonup> string"

definition pipe :: "string \<Rightarrow> string \<Rightarrow> files \<Rightarrow> error option \<times> files" where
  "pipe src dst fs =
     (case fs src of
        None \<Rightarrow> (Some ''ENOENT: no such file or directory'', fs(dst \<mapsto> ''''))
      | Some bytes \<Rightarrow> (None, fs(dst \<mapsto> bytes)))"

text \<open>What the promise of \<open>backupDatabase\<close> resolves with.\<close>

datatype resolution = Undefined | JsTrue

text \<open>
  \<open>backupDatabase\<close>, with the lines it logs (level and message). \<open>result\<close> is
  \<open>err === null\<close> of the access check. In the second promise \<open>resolve(true)\<close> does not
  leave the executor: the streams are made and piped after it as well, and a promise that
  is resolved ignores the later \<open>reject\<close> and \<open>resolve\<close>.
\<close>

definition backupDatabase ::
  "config \<Rightarrow> files \<Rightarrow> (error + resolution) \<times> files \<times> (string \<times> string) list" where
  "backupDatabase cfg fs =
     (case filename cfg of
        None \<Rightarrow>
          (Inr Undefined, fs, [(''warn'', ''Backups not supported on non-sqlite connector'')])
      | Some file \<Rightarrow>
          if file = '':memory:'' then
            (Inr Undefined, fs, [(''info'', ''Can't backup a :memory: database.'')])
          else
            (let BACKUP_NAME = file @ ''.backup'';
                 result = (fs BACKUP_NAME \<noteq> None)
             in case pipe file BACKUP_NAME fs of
                  (rd_error, fs') \<Rightarrow>
                    if \<not> result then
                      (Inr JsTrue, fs',
                       [(''warn'', ''NOT backing up database while a file already exists'')])
                    else
                      (case rd_error of
                         Some err \<Rightarrow> (Inl err, fs', [])
                       | None \<Rightarrow> (Inr Undefined, fs', []))))"

subsection \<open>An in-memory database, for concrete runs\<close>

text \<open>
  A database with the control table and the token table, each of which may not exist yet,
  and the list of the migration steps applied to it.
\<close>

record mem_db =
  schema_table :: "int list option"
  token_table :: "(string \<times> string) list option"
  applied :: "int list"

definition mem_connector :: "mem_db connector" where
  "mem_connector =
     \<lparr>db_Open = (\<lambda>w. (None, w)),
      db_Get_version =
        (\<lambda>w. case schema_table w of
               None \<Rightarrow> Inl ''no such table: schema''
             | Some [] \<Rightarrow> Inr None
             | Some (v # vs) \<Rightarrow> Inr (Some v)),
      db_Get_token =
        (\<lambda>discordId w. case token_table w of
               None \<Rightarrow> Inl ''no such table: discord_id_token''
             | Some rows \<Rightarrow> Inr (map_of rows discordId)),
      db_Run_set_version =
        (\<lambda>ver w. case schema_table w of
               None \<Rightarrow> (Some ''no such table: schema'', w)
             | Some rows \<Rightarrow> (None, w\<lparr>schema_table := Some (map (\<lambda>v. ver) rows)\<rparr>))\<rparr>"

text \<open>The same database opened read-only: the update of the control table is refused.\<close>

definition readonly_connector :: "mem_db connector" where
  "readonly_connector =
     mem_connector\<lparr>db_Run_set_version :=
       (\<lambda>ver w. (Some ''SQLITE_READONLY: attempt to write a readonly database'', w))\<rparr>"

text \<open>
  Step \<open>version\<close> of a family of steps: its forward action fails for the versions in
  \<open>failing\<close>, its rollback for those in \<open>stuck\<close>; step 1 creates the control table with
  the row 0, as the first step of the bridge does.
\<close>

definition mem_schema :: "int list \<Rightarrow> int list \<Rightarrow> int \<Rightarrow> string list \<Rightarrow> mem_db schema" where
  "mem_schema failing stuck version args =
     \<lparr>description = ''step'',
      run =
        (\<lambda>w. if version \<in> set failing then (Some ''SQLITE_ERROR'', w)
              else (None, w\<lparr>schema_table :=
                                (if version = 1 then Some [0] else schema_table w),
                              applied := applied w @ [version]\<rparr>)),
      rollBack =
        (\<lambda>w. if version \<in> set stuck then (Some ''SQLITE_ERROR'', w) else (None, w))\<rparr>"

definition mem_modules ::
  "mem_db connector \<Rightarrow> int list \<Rightarrow> int list \<Rightarrow> (mem_db, string) modules" where
  "mem_modules connector failing stuck =
     \<lparr>SQLite3 = (\<lambda>file. connector),
      Postgres = (\<lambda>conn. connector),
      require_schema =
        (\<lambda>version. if 1 \<le> version \<and> version \<le> CURRENT_SCHEMA
                    then Some (mem_schema failing stuck version) else None)\<rparr>"

definition mem_store :: "mem_db store" where
  "mem_store = \<lparr>config = \<lparr>filename = Some ''discord.db'', connString = None\<rparr>, db = None\<rparr>"

definition opened_store :: "mem_db connector \<Rightarrow> mem_db store" where
  "opened_store connector = mem_store\<lparr>db := Some connector\<rparr>"

text \<open>A database at schema version \<open>v\<close>, and one that no step has touched.\<close>

definition db_at :: "int \<Rightarrow> mem_db" where
  "db_at v = \<lparr>schema_table = Some [v], token_table = Some [], applied = []\<rparr>"

definition fresh_db :: mem_db where
  "fresh_db = \<lparr>schema_table = None, token_table = None, applied = []\<rparr>"

text \<open>
  Values as the gateway's log lines convert them. Query parameters are an object with the
  id in it, ordinary or made without a prototype; a thrown value is an \<open>Error\<close> with its
  message, or an object made without a prototype. The objects without a prototype have no
  string form.
\<close>

datatype token_params = Params string | Bare_params string

datatype thrown = Error string | Bare

fun discord_id :: "token_params \<Rightarrow> string" where
  "discord_id (Params discordId) = discordId"
| "discord_id (Bare_params discordId) = discordId"

definition js_strings :: "(token_params, thrown) template" where
  "js_strings =
     \<lparr>params_string =
        (\<lambda>p. case p of
               Params discordId \<Rightarrow> Inr ''[object Object]''
             | Bare_params discordId \<Rightarrow>
                 Inl (Error ''TypeError: Cannot convert object to primitive value'')),
      thrown_string =
        (\<lambda>x. case x of
               Error message \<Rightarrow> Inr (''Error: '' @ message)
             | Bare \<Rightarrow> Inl (Error ''TypeError: Cannot convert object to primitive value''))\<rparr>"

text \<open>
  A record class over the token table: \<open>RunQuery\<close> looks a token up and assigns \<open>Result\<close>
  (whether a row came back) and the token; the three writes fail when the table is
  missing or the key is in the way.
\<close>

record token_entity =
  DiscordId :: string
  Token :: string
  Result :: bool

definition DbToken :: "(mem_db, token_params, token_entity, thrown) IDbData" where
  "DbToken =
     \<lparr>construct = \<lparr>DiscordId = '''', Token = '''', Result = False\<rparr>,
      RunQuery =
        (\<lambda>e params w. case db_Get_token mem_connector (discord_id params) w of
               Inl err \<Rightarrow> (Some (Error err), e, w)
             | Inr None \<Rightarrow> (None, e\<lparr>Result := False\<rparr>, w)
             | Inr (Some token) \<Rightarrow>
                 (None,
                  e\<lparr>DiscordId := discord_id params, Token := token, Result := True\<rparr>, w)),
      data_Insert =
        (\<lambda>e w. case token_table w of
               None \<Rightarrow> (Some (Error ''no such table: discord_id_token''), e, w)
             | Some rows \<Rightarrow>
                 if DiscordId e \<in> fst ` set rows
                 then (Some (Error ''UNIQUE constraint failed: discord_id_token.discord_id''),
                       e, w)
                 else (None, e, w\<lparr>token_table := Some (rows @ [(DiscordId e, Token e)])\<rparr>)),
      data_Update =
        (\<lambda>e w. case token_table w of
               None \<Rightarrow> (Some (Error ''no such table: discord_id_token''), e, w)
             | Some rows \<Rightarrow>
                 (None, e,
                  w\<lparr>token_table :=
                      Some (map (\<lambda>(k, t). if k = DiscordId e then (k, Token e) else (k, t))
                              rows)\<rparr>)),
      data_Delete =
        (\<lambda>e w. case token_table w of
               None \<Rightarrow> (Some (Error ''no such table: discord_id_token''), e, w)
             | Some rows \<Rightarrow>
                 (None, e,
                  w\<lparr>token_table := Some (filter (\<lambda>(k, t). k \<noteq> DiscordId e) rows)\<rparr>))\<rparr>"

text \<open>The same class with a query that throws an object made without a prototype.\<close>

definition DbBare :: "(mem_db, token_params, token_entity, thrown) IDbData" where
  "DbBare = DbToken\<lparr>RunQuery := (\<lambda>e params w. (Some Bare, e, w))\<rparr>"

text \<open>
  A database that keeps, beside its version row, what each step that ran on it had been
  constructed with, and steps that write just that.
\<close>

record probe_db =
  version_row :: int
  constructed :: "(int \<times> string list) list"

definition probe_connector :: "probe_db connector" where
  "probe_connector =
     \<lparr>db_Open = (\<lambda>w. (None, w)),
      db_Get_version = (\<lambda>w. Inr (Some (version_row w))),
      db_Get_token = (\<lambda>discordId w. Inr None),
      db_Run_set_version = (\<lambda>ver w. (None, w\<lparr>version_row := ver\<rparr>))\<rparr>"

definition probe_schema :: "int \<Rightarrow> string list \<Rightarrow> probe_db schema" where
  "probe_schema version args =
     \<lparr>description = ''probe'',
      run = (\<lambda>w. (None, w\<lparr>constructed := constructed w @ [(version, args)]\<rparr>)),
      rollBack = (\<lambda>w. (None, w))\<rparr>"

definition probe_modules :: "(probe_db, string) modules" where
  "probe_modules =
     \<lparr>SQLite3 = (\<lambda>file. probe_connector),
      Postgres = (\<lambda>conn. probe_connector),
      require_schema = (\<lambda>version. Some (probe_schema version))\<rparr>"

definition probe_store :: "probe_db store" where
  "probe_store =
     \<lparr>config = \<lparr>filename = Some ''discord.db'', connString = None\<rparr>, db = None\<rparr>"

text \<open>The files of a bridge whose database was written after its backup was taken.\<close>

definition sqlite_config :: config where
  "sqlite_config = \<lparr>filename = Some ''discord.db'', connString = None\<rparr>"

definition files_before :: files where
  "files_before = [''discord.db'' \<mapsto> ''rows at schema 9'']"

definition files_after :: files where
  "files_after =
     [''discord.db'' \<mapsto> ''rows at schema 10'', ''discord.db.backup'' \<mapsto> ''rows at schema 9'']"

section \<open>Properties\<close>

subsection \<open>One round of the loop\<close>

text \<open>
  Induction over the distance to the target: a property of the loop from any version
  follows if it holds at a version whenever it holds one version further.
\<close>

lemma loop_induct:
  fixes version target :: int
  assumes step: "\<And>version w. (\<And>w2. version < target \<Longrightarrow> P (version + 1) w2) \<Longrightarrow> P version w"
  shows "P version w"
proof (induction "nat (target - version)" arbitrary: version w)
  case 0
  then have "\<not> version < target" by simp
  then show ?case by (simp add: step)
next
  case (Suc n)
  have "P (version + 1) w2" for w2
    using Suc.hyps(1) [of "version + 1" w2] Suc.hyps(2) by simp
  then show ?case by (rule step)
qed

lemma init_loop_done:
  "\<not> version < target \<Longrightarrow> init_loop M st rs us target version w = (Inr (), w, [])"
  by (subst init_loop.simps) simp

lemma init_loop_round:
  assumes "init_loop M st rs us target version w = (res, w', evs)" and "version < target"
  obtains
    (missing) "require_schema M (version + 1) = None"
      "res = Inl ''Cannot find module''" "w' = w" "evs = []"
  | (fatal) cls ex ex2 w1 where "require_schema M (version + 1) = Some cls"
      "run (cls (constructor_args rs us (version + 1))) w = (Some ex, w1)"
      "rollBack (cls (constructor_args rs us (version + 1))) w1 = (Some ex2, w')"
      "res = Inl ''Failure to update to latest schema. And failed to rollback.''"
      "evs = [Construct (version + 1) (constructor_args rs us (version + 1)),
              Run (version + 1) (Some ex), RollBack (version + 1) (Some ex2)]"
  | (rolled_back) cls ex w1 where "require_schema M (version + 1) = Some cls"
      "run (cls (constructor_args rs us (version + 1))) w = (Some ex, w1)"
      "rollBack (cls (constructor_args rs us (version + 1))) w1 = (None, w')"
      "res = Inl ''Failure to update to latest schema.''"
      "evs = [Construct (version + 1) (constructor_args rs us (version + 1)),
              Run (version + 1) (Some ex), RollBack (version + 1) None]"
  | (not_set) cls er w1 where "require_schema M (version + 1) = Some cls"
      "run (cls (constructor_args rs us (version + 1))) w = (None, w1)"
      "setSchemaVersion st (version + 1) w1 = (Some er, w')"
      "res = Inl er"
      "evs = [Construct (version + 1) (constructor_args rs us (version + 1)),
              Run (version + 1) None, SetSchemaVersion (version + 1) (Some er)]"
  | (committed) cls w1 w2 evs' where "require_schema M (version + 1) = Some cls"
      "run (cls (constructor_args rs us (version + 1))) w = (None, w1)"
      "setSchemaVersion st (version + 1) w1 = (None, w2)"
      "init_loop M st rs us target (version + 1) w2 = (res, w', evs')"
      "evs = [Construct (version + 1) (constructor_args rs us (version + 1)),
              Run (version + 1) None, SetSchemaVersion (version + 1) None] @ evs'"
  using assms that
  unfolding init_loop.simps [of M st rs us target version w]
  by (simp add: Let_def split: option.splits prod.splits)

lemma init_loop_steps:
  "init_loop M st rs us target version w = (res, w', evs) \<Longrightarrow> ev \<in> set evs
     \<Longrightarrow> version < step_of ev \<and> step_of ev \<le> target"
proof (induction version w arbitrary: res w' evs rule: loop_induct [where target = target])
  case (1 version w)
  show ?case
  proof (cases "version < target")
    case False
    with "1.prems" show ?thesis by (simp add: init_loop_done)
  next
    case True
    from "1.prems"(1) True show ?thesis
    proof (cases rule: init_loop_round)
      case (committed cls w1 w2 evs')
      show ?thesis
      proof (cases "ev \<in> set evs'")
        case True
        from "1.IH" [OF \<open>version < target\<close> committed(4) True] show ?thesis by simp
      next
        case False
        with "1.prems"(2) committed(5) \<open>version < target\<close> show ?thesis by auto
      qed
    qed (use "1.prems"(2) True in auto)
  qed
qed


lemma init_loop_constructed:
  "init_loop M st rs us target version w = (res, w', evs) \<Longrightarrow> Construct v args \<in> set evs
     \<Longrightarrow> args = constructor_args rs us v"
proof (induction version w arbitrary: res w' evs rule: loop_induct [where target = target])
  case (1 version w)
  show ?case
  proof (cases "version < target")
    case False
    with "1.prems" show ?thesis by (simp add: init_loop_done)
  next
    case True
    from "1.prems"(1) True show ?thesis
    proof (cases rule: init_loop_round)
      case (committed cls w1 w2 evs')
      show ?thesis
      proof (cases "Construct v args \<in> set evs'")
        case True
        from "1.IH" [OF \<open>version < target\<close> committed(4) True] show ?thesis .
      next
        case False
        with "1.prems"(2) committed(5) show ?thesis by auto
      qed
    qed (use "1.prems"(2) in auto)
  qed
qed

lemma init_loop_set_after_run:
  "init_loop M st rs us target version w = (res, w', evs)
     \<Longrightarrow> evs = pre @ SetSchemaVersion v r # post \<Longrightarrow> Run v None \<in> set pre"
proof (induction version w arbitrary: res w' evs pre rule: loop_induct [where target = target])
  case (1 version w)
  show ?case
  proof (cases "version < target")
    case False
    with "1.prems" show ?thesis by (simp add: init_loop_done)
  next
    case True
    from "1.prems"(1) True show ?thesis
    proof (cases rule: init_loop_round)
      case (committed cls w1 w2 evs')
      from "1.prems"(2) committed(5) consider
          (here) "pre = [Construct (version + 1) (constructor_args rs us (version + 1)),
                         Run (version + 1) None]" "v = version + 1"
        | (later) pre' where
            "pre = [Construct (version + 1) (constructor_args rs us (version + 1)),
                    Run (version + 1) None, SetSchemaVersion (version + 1) None] @ pre'"
            "evs' = pre' @ SetSchemaVersion v r # post"
        by (auto simp: Cons_eq_append_conv append_eq_Cons_conv)
      then show ?thesis
      proof cases
        case here
        then show ?thesis by simp
      next
        case later
        from "1.IH" [OF \<open>version < target\<close> committed(4) later(2)] later(1)
        show ?thesis by simp
      qed
    qed (use "1.prems"(2) in \<open>auto simp: Cons_eq_append_conv append_eq_Cons_conv\<close>)
  qed
qed


lemma persisted_committed [simp]:
  "persisted v (Construct n args # Run n None # SetSchemaVersion n None # evs) = persisted n evs"
  by simp

lemma init_loop_failed:
  assumes "init_loop M st rs us target version w = (res, w', evs)"
    and "Run k (Some ex) \<in> set evs"
  shows "(\<forall>ev \<in> set evs. step_of ev \<le> k)
       \<and> (\<forall>r. SetSchemaVersion k r \<notin> set evs)
       \<and> persisted version evs = k - 1
       \<and> (RollBack k None \<in> set evs \<longrightarrow> res = Inl ''Failure to update to latest schema.'')
       \<and> ((\<exists>ex2. RollBack k (Some ex2) \<in> set evs) \<longrightarrow>
            res = Inl ''Failure to update to latest schema. And failed to rollback.'')"
  using assms
proof (induction version w arbitrary: res w' evs rule: loop_induct [where target = target])
  case (1 version w)
  show ?case
  proof (cases "version < target")
    case False
    with "1.prems" show ?thesis by (simp add: init_loop_done)
  next
    case True
    from "1.prems"(1) True show ?thesis
    proof (cases rule: init_loop_round)
      case (committed cls w1 w2 evs')
      from "1.prems"(2) committed(5) have mem: "Run k (Some ex) \<in> set evs'" by auto
      from init_loop_steps [OF committed(4) mem] have k: "version + 1 < k" by simp
      from "1.IH" [OF \<open>version < target\<close> committed(4) mem] k committed(5)
      show ?thesis by auto
    qed (use "1.prems"(2) in auto)
  qed
qed

lemma init_loop_succeeded:
  assumes "init_loop M st rs us target version w = (res, w', evs)"
    and "version \<le> target"
    and "\<forall>v. version < v \<and> v \<le> target \<longrightarrow> require_schema M v \<noteq> None"
    and "\<forall>v ex. Run v (Some ex) \<notin> set evs"
    and "\<forall>v er. SetSchemaVersion v (Some er) \<notin> set evs"
  shows "res = Inr () \<and> set_versions evs = [version + 1..target]
       \<and> persisted version evs = target
       \<and> (version < target \<longrightarrow> (\<exists>w1. setSchemaVersion st target w1 = (None, w')))"
  using assms
proof (induction version w arbitrary: res w' evs rule: loop_induct [where target = target])
  case (1 version w)
  show ?case
  proof (cases "version < target")
    case False
    with "1.prems" show ?thesis by (simp add: init_loop_done)
  next
    case True
    from "1.prems"(1) True show ?thesis
    proof (cases rule: init_loop_round)
      case missing
      from "1.prems"(3) True have "require_schema M (version + 1) \<noteq> None" by simp
      with missing(1) show ?thesis by simp
    next
      case (committed cls w1 w2 evs')
      have le: "version + 1 \<le> target" using True by simp
      have mods: "\<forall>v. version + 1 < v \<and> v \<le> target \<longrightarrow> require_schema M v \<noteq> None"
        using "1.prems"(3) by auto
      have runs: "\<forall>v ex. Run v (Some ex) \<notin> set evs'"
        using "1.prems"(4) committed(5) by auto
      have sets: "\<forall>v er. SetSchemaVersion v (Some er) \<notin> set evs'"
        using "1.prems"(5) committed(5) by auto
      note IH = "1.IH" [OF True committed(4) le mods runs sets]
      have upto: "[version + 1..target] = (version + 1) # [version + 1 + 1..target]"
        using le by (simp add: upto_rec1)
      show ?thesis
      proof (cases "version + 1 < target")
        case True
        with IH committed(5) upto show ?thesis by simp
      next
        case False
        with committed(4) have "w' = w2" by (simp add: init_loop_done)
        with IH committed(3,5) upto False le show ?thesis by auto
      qed
    qed (use "1.prems"(4,5) in auto)
  qed
qed

subsection \<open>The arguments of the constructors\<close>

text \<open>
  Replacing every schema class by the one that is always constructed as the
  specification says changes nothing in a run: the loop gives each class just those
  arguments.
\<close>

lemma require_schema_with_collaborators:
  "require_schema (with_collaborators rs us M) version =
     (case require_schema M version of
        None \<Rightarrow> None
      | Some schemaClass \<Rightarrow> Some (\<lambda>args. schemaClass (constructor_args rs us version)))"
  by (cases "require_schema M version") (simp_all add: with_collaborators_def constructor_args_def)

lemma init_loop_with_collaborators:
  "init_loop (with_collaborators rs us M) st rs us target version w
     = init_loop M st rs us target version w"
proof (induction version w rule: loop_induct [where target = target])
  case (1 version w)
  show ?case
  proof (cases "version < target")
    case False
    then show ?thesis by (simp add: init_loop_done)
  next
    case True
    note IH = "1.IH" [OF True]
    show ?thesis
    proof (cases "require_schema M (version + 1)")
      case None
      then show ?thesis
        by (simp only: init_loop.simps [of _ st rs us target version w])
           (simp add: require_schema_with_collaborators)
    next
      case (Some schemaClass)
      then show ?thesis
        by (simp only: init_loop.simps [of _ st rs us target version w])
           (simp add: require_schema_with_collaborators IH Let_def
              cong: prod.case_cong option.case_cong)
    qed
  qed
qed

lemma select_connector_with_collaborators:
  "select_connector (with_collaborators rs us M) st = select_connector M st"
  by (simp add: select_connector_def with_collaborators_def split: option.splits list.splits)

lemma openDatabase_with_collaborators:
  "openDatabase (with_collaborators rs us M) st w = openDatabase M st w"
  by (simp add: openDatabase_def select_connector_with_collaborators)

lemma init_with_collaborators:
  "init (with_collaborators rs us M) st overrideSchema rs us w = init M st overrideSchema rs us w"
  by (simp add: init_def openDatabase_with_collaborators init_loop_with_collaborators
      cong: prod.case_cong option.case_cong)

subsection \<open>Concrete runs\<close>

lemmas mem_defs =
  mem_modules_def mem_connector_def readonly_connector_def mem_schema_def mem_store_def
  opened_store_def db_at_def fresh_db_def

lemmas init_defs =
  init_def openDatabase_def select_connector_def getSchemaVersion_def setSchemaVersion_def
  targetSchema_def CURRENT_SCHEMA_def constructor_args_def starting_version_def

lemma init_cases:
  assumes "init M st overrideSchema roomStore userStore w = (res, st', w', evs)"
  obtains
    (closed) "evs = []" "fst (openDatabase M st w) \<noteq> None"
  | (opened) w1 where "openDatabase M st w = (None, st', w1)"
      "init_loop M st' roomStore userStore (targetSchema overrideSchema)
         (starting_version M st w) w1 = (res, w', evs)"
  using assms
  by (auto simp: init_def starting_version_def Let_def split: prod.splits option.splits)

lemma run_7_to_10:
  "init (mem_modules mem_connector [] []) mem_store 0 ''rooms'' ''users'' (db_at 7) =
     (Inr (), opened_store mem_connector,
      \<lparr>schema_table = Some [10], token_table = Some [], applied = [8, 9, 10]\<rparr>,
      [Construct 8 [''rooms''], Run 8 None, SetSchemaVersion 8 None,
       Construct 9 [''users''], Run 9 None, SetSchemaVersion 9 None,
       Construct 10 [], Run 10 None, SetSchemaVersion 10 None])"
  by (simp add: init_defs mem_defs init_loop.simps)

lemma run_readonly:
  "init (mem_modules readonly_connector [] []) mem_store 3 ''rooms'' ''users'' (db_at 2) =
     (Inl ''SQLITE_READONLY: attempt to write a readonly database'',
      opened_store readonly_connector,
      \<lparr>schema_table = Some [2], token_table = Some [], applied = [3]\<rparr>,
      [Construct 3 [], Run 3 None,
       SetSchemaVersion 3 (Some ''SQLITE_READONLY: attempt to write a readonly database'')])"
  by (simp add: init_defs mem_defs init_loop.simps)

lemma run_rolled_back:
  "init (mem_modules mem_connector [3] []) mem_store 0 ''rooms'' ''users'' (db_at 1) =
     (Inl ''Failure to update to latest schema.'', opened_store mem_connector,
      \<lparr>schema_table = Some [2], token_table = Some [], applied = [2]\<rparr>,
      [Construct 2 [], Run 2 None, SetSchemaVersion 2 None,
       Construct 3 [], Run 3 (Some ''SQLITE_ERROR''), RollBack 3 None])"
  by (simp add: init_defs mem_defs init_loop.simps)

lemma run_stuck:
  "init (mem_modules mem_connector [3] [3]) mem_store 0 ''rooms'' ''users'' (db_at 1) =
     (Inl ''Failure to update to latest schema. And failed to rollback.'',
      opened_store mem_connector,
      \<lparr>schema_table = Some [2], token_table = Some [], applied = [2]\<rparr>,
      [Construct 2 [], Run 2 None, SetSchemaVersion 2 None,
       Construct 3 [], Run 3 (Some ''SQLITE_ERROR''), RollBack 3 (Some ''SQLITE_ERROR'')])"
  by (simp add: init_defs mem_defs init_loop.simps)

lemma run_fresh_to_3:
  "init (mem_modules mem_connector [] []) mem_store 3 ''rooms'' ''users'' fresh_db =
     (Inr (), opened_store mem_connector,
      \<lparr>schema_table = Some [3], token_table = None, applied = [1, 2, 3]\<rparr>,
      [Construct 1 [], Run 1 None, SetSchemaVersion 1 None,
       Construct 2 [], Run 2 None, SetSchemaVersion 2 None,
       Construct 3 [], Run 3 None, SetSchemaVersion 3 None])"
  by (simp add: init_defs mem_defs init_loop.simps)

lemma run_probe:
  "init probe_modules probe_store 0 ''rooms'' ''users'' \<lparr>version_row = 7, constructed = []\<rparr> =
     (Inr (), probe_store\<lparr>db := Some probe_connector\<rparr>,
      \<lparr>version_row = 10,
       constructed = [(8, [''rooms'']), (9, [''users'']), (10, [])]\<rparr>,
      [Construct 8 [''rooms''], Run 8 None, SetSchemaVersion 8 None,
       Construct 9 [''users''], Run 9 None, SetSchemaVersion 9 None,
       Construct 10 [], Run 10 None, SetSchemaVersion 10 None])"
  by (simp add: init_defs probe_modules_def probe_store_def probe_connector_def
      probe_schema_def init_loop.simps Let_def)

subsection \<open>The migration runner\<close>

text \<open>
  C2, with what the runner needs from its surroundings written out. Take a run of \<open>init\<close>
  that opens the database and reads a version below the target, in which the module of
  every step from there up to the target is found, no forward action fails and no
  \<open>setSchemaVersion\<close> fails. Then \<open>init\<close> returns normally; the versions given to
  \<open>setSchemaVersion\<close> are, in the order of the calls, the starting version plus one up to
  the target, each once and none left out; the persisted version is the target; and the
  state that \<open>init\<close> leaves is the one that \<open>setSchemaVersion\<close> of the target returned.
\<close>

theorem init_reaches_target:
  assumes "init M st overrideSchema roomStore userStore w = (res, st', w', evs)"
    and "fst (openDatabase M st w) = None"
    and "starting_version M st w < targetSchema overrideSchema"
    and "\<forall>v. starting_version M st w < v \<and> v \<le> targetSchema overrideSchema
           \<longrightarrow> require_schema M v \<noteq> None"
    and "\<forall>v ex. Run v (Some ex) \<notin> set evs"
    and "\<forall>v er. SetSchemaVersion v (Some er) \<notin> set evs"
  shows "res = Inr ()
       \<and> set_versions evs = [starting_version M st w + 1..targetSchema overrideSchema]
       \<and> persisted (starting_version M st w) evs = targetSchema overrideSchema
       \<and> (\<exists>w1. setSchemaVersion st' (targetSchema overrideSchema) w1 = (None, w'))"
  using assms(1)
proof (cases rule: init_cases)
  case closed
  with assms(2) show ?thesis by simp
next
  case (opened w1)
  from init_loop_succeeded [OF opened(2) _ assms(4,5,6)] assms(3)
  show ?thesis by simp
qed

text \<open>A database at version 7 and the default target: steps 8, 9 and 10 are committed.\<close>

theorem init_reaches_target_witness:
  "fst (openDatabase (mem_modules mem_connector [] []) mem_store (db_at 7)) = None
   \<and> starting_version (mem_modules mem_connector [] []) mem_store (db_at 7) = 7
   \<and> targetSchema 0 = 10
   \<and> fst (init (mem_modules mem_connector [] []) mem_store 0 ''rooms'' ''users'' (db_at 7))
       = Inr ()
   \<and> set_versions
        (snd (snd (snd (init (mem_modules mem_connector [] []) mem_store 0 ''rooms'' ''users''
                          (db_at 7)))))
       = [8, 9, 10]
   \<and> persisted 7
        (snd (snd (snd (init (mem_modules mem_connector [] []) mem_store 0 ''rooms'' ''users''
                          (db_at 7)))))
       = 10"
proof -
  let ?M = "mem_modules mem_connector [] []"
  let ?evs = "[Construct 8 [''rooms''], Run 8 None, SetSchemaVersion 8 None,
               Construct 9 [''users''], Run 9 None, SetSchemaVersion 9 None,
               Construct 10 [], Run 10 None, SetSchemaVersion 10 None]"
  have opened: "fst (openDatabase ?M mem_store (db_at 7)) = None"
    by (simp add: init_defs mem_defs)
  have v0: "starting_version ?M mem_store (db_at 7) = 7"
    by (simp add: init_defs mem_defs)
  have target: "targetSchema 0 = 10"
    by (simp add: init_defs)
  have below: "starting_version ?M mem_store (db_at 7) < targetSchema 0"
    by (simp add: v0 target)
  have found: "\<forall>v. starting_version ?M mem_store (db_at 7) < v \<and> v \<le> targetSchema 0
                 \<longrightarrow> require_schema ?M v \<noteq> None"
    by (simp add: v0 target) (simp add: mem_defs CURRENT_SCHEMA_def)
  have forward: "\<forall>v ex. Run v (Some ex) \<notin> set ?evs"
    by simp
  have written: "\<forall>v er. SetSchemaVersion v (Some er) \<notin> set ?evs"
    by simp
  from init_reaches_target [OF run_7_to_10 opened below found forward written]
  show ?thesis
    by (simp add: run_7_to_10 opened v0 target)
qed

text \<open>
  Without the hypothesis on \<open>setSchemaVersion\<close> the statement fails. On a database at
  version 2 that refuses writes to the control table, with the target 3, the forward action
  of step 3 succeeds, the update of the version throws, \<open>init\<close> rethrows it, and the
  persisted version is still 2.
\<close>

theorem init_readonly_counterexample:
  "init (mem_modules readonly_connector [] []) mem_store 3 ''rooms'' ''users'' (db_at 2) =
     (Inl ''SQLITE_READONLY: attempt to write a readonly database'',
      opened_store readonly_connector,
      \<lparr>schema_table = Some [2], token_table = Some [], applied = [3]\<rparr>,
      [Construct 3 [], Run 3 None,
       SetSchemaVersion 3 (Some ''SQLITE_READONLY: attempt to write a readonly database'')])
   \<and> starting_version (mem_modules readonly_connector [] []) mem_store (db_at 2) = 2
   \<and> targetSchema 3 = 3
   \<and> persisted 2
        [Construct 3 [], Run 3 None,
         SetSchemaVersion 3 (Some ''SQLITE_READONLY: attempt to write a readonly database'')]
       = (2 :: int)
   \<and> getSchemaVersion (opened_store readonly_connector)
        \<lparr>schema_table = Some [2], token_table = Some [], applied = [3]\<rparr> = 2"
  by (simp add: run_readonly) (simp add: init_defs mem_defs)

text \<open>
  C3: if in a run of \<open>init\<close> the forward action of step \<open>k\<close> fails and its rollback
  succeeds, then \<open>init\<close> throws the error "Failure to update to latest schema.", no call
  of the run is about a step above \<open>k\<close>, \<open>setSchemaVersion\<close> is not called for \<open>k\<close>, and the
  persisted version is \<open>k - 1\<close>.
\<close>

theorem init_rolled_back:
  assumes "init M st overrideSchema roomStore userStore w = (res, st', w', evs)"
    and "Run k (Some ex) \<in> set evs"
    and "RollBack k None \<in> set evs"
  shows "res = Inl ''Failure to update to latest schema.''
       \<and> (\<forall>ev \<in> set evs. step_of ev \<le> k)
       \<and> (\<forall>r. SetSchemaVersion k r \<notin> set evs)
       \<and> persisted (starting_version M st w) evs = k - 1"
  using assms(1)
proof (cases rule: init_cases)
  case closed
  with assms(2) show ?thesis by simp
next
  case (opened w1)
  from init_loop_failed [OF opened(2) assms(2)] assms(3)
  show ?thesis by simp
qed

text \<open>A database at version 1 whose step 3 fails and rolls back: step 2 stays committed.\<close>

theorem init_rolled_back_witness:
  "Run 3 (Some ''SQLITE_ERROR'')
     \<in> set (snd (snd (snd (init (mem_modules mem_connector [3] []) mem_store 0
                              ''rooms'' ''users'' (db_at 1)))))
   \<and> RollBack 3 None
     \<in> set (snd (snd (snd (init (mem_modules mem_connector [3] []) mem_store 0
                              ''rooms'' ''users'' (db_at 1)))))
   \<and> fst (init (mem_modules mem_connector [3] []) mem_store 0 ''rooms'' ''users'' (db_at 1))
       = Inl ''Failure to update to latest schema.''
   \<and> persisted (starting_version (mem_modules mem_connector [3] []) mem_store (db_at 1))
        (snd (snd (snd (init (mem_modules mem_connector [3] []) mem_store 0
                          ''rooms'' ''users'' (db_at 1)))))
       = 3 - 1"
proof -
  let ?evs = "[Construct 2 [], Run 2 None, SetSchemaVersion 2 None,
               Construct 3 [], Run 3 (Some ''SQLITE_ERROR''), RollBack 3 None]"
  have forward: "Run 3 (Some ''SQLITE_ERROR'') \<in> set ?evs"
    by simp
  have undone: "RollBack 3 None \<in> set ?evs"
    by simp
  from init_rolled_back [OF run_rolled_back forward undone]
  show ?thesis
    by (simp add: run_rolled_back)
qed

text \<open>
  C4: if in a run of \<open>init\<close> the forward action of step \<open>k\<close> fails and then its rollback
  fails too, then \<open>init\<close> throws the error "Failure to update to latest schema. And failed
  to rollback.", which is not the error of the rolled-back case; no call is about a step
  above \<open>k\<close>, \<open>setSchemaVersion\<close> is not called for \<open>k\<close>, and the persisted version is
  \<open>k - 1\<close>, so it has not moved past \<open>k - 1\<close>.
\<close>

theorem init_rollback_failed:
  assumes "init M st overrideSchema roomStore userStore w = (res, st', w', evs)"
    and "Run k (Some ex) \<in> set evs"
    and "RollBack k (Some ex2) \<in> set evs"
  shows "res = Inl ''Failure to update to latest schema. And failed to rollback.''
       \<and> res \<noteq> Inl ''Failure to update to latest schema.''
       \<and> (\<forall>ev \<in> set evs. step_of ev \<le> k)
       \<and> (\<forall>r. SetSchemaVersion k r \<notin> set evs)
       \<and> persisted (starting_version M st w) evs = k - 1"
  using assms(1)
proof (cases rule: init_cases)
  case closed
  with assms(2) show ?thesis by simp
next
  case (opened w1)
  from assms(3) have "\<exists>ex2. RollBack k (Some ex2) \<in> set evs" by blast
  with init_loop_failed [OF opened(2) assms(2)]
  show ?thesis by simp
qed

text \<open>The same database when the rollback of step 3 fails as well.\<close>

theorem init_rollback_failed_witness:
  "Run 3 (Some ''SQLITE_ERROR'')
     \<in> set (snd (snd (snd (init (mem_modules mem_connector [3] [3]) mem_store 0
                              ''rooms'' ''users'' (db_at 1)))))
   \<and> RollBack 3 (Some ''SQLITE_ERROR'')
     \<in> set (snd (snd (snd (init (mem_modules mem_connector [3] [3]) mem_store 0
                              ''rooms'' ''users'' (db_at 1)))))
   \<and> fst (init (mem_modules mem_connector [3] [3]) mem_store 0 ''rooms'' ''users'' (db_at 1))
       = Inl ''Failure to update to latest schema. And failed to rollback.''
   \<and> persisted (starting_version (mem_modules mem_connector [3] [3]) mem_store (db_at 1))
        (snd (snd (snd (init (mem_modules mem_connector [3] [3]) mem_store 0
                          ''rooms'' ''users'' (db_at 1)))))
       = 3 - 1"
proof -
  let ?evs = "[Construct 2 [], Run 2 None, SetSchemaVersion 2 None,
               Construct 3 [], Run 3 (Some ''SQLITE_ERROR''),
               RollBack 3 (Some ''SQLITE_ERROR'')]"
  have forward: "Run 3 (Some ''SQLITE_ERROR'') \<in> set ?evs"
    by simp
  have undone: "RollBack 3 (Some ''SQLITE_ERROR'') \<in> set ?evs"
    by simp
  from init_rollback_failed [OF run_stuck forward undone]
  show ?thesis
    by (simp add: run_stuck)
qed

text \<open>
  C5: wherever a run of \<open>init\<close> calls \<open>setSchemaVersion\<close> for a version \<open>v\<close>, the calls
  before it contain the forward action of step \<open>v\<close>, returned without an error.
\<close>

theorem init_set_after_run:
  assumes "init M st overrideSchema roomStore userStore w = (res, st', w', evs)"
    and "evs = pre @ SetSchemaVersion v r # post"
  shows "Run v None \<in> set pre"
  using assms(1)
proof (cases rule: init_cases)
  case closed
  with assms(2) show ?thesis by simp
next
  case (opened w1)
  from init_loop_set_after_run [OF opened(2) assms(2)] show ?thesis .
qed

text \<open>The call for version 2 in the run that rolls step 3 back.\<close>

theorem init_set_after_run_witness:
  "snd (snd (snd (init (mem_modules mem_connector [3] []) mem_store 0 ''rooms'' ''users''
                    (db_at 1))))
     = [Construct 2 [], Run 2 None] @ SetSchemaVersion 2 None
         # [Construct 3 [], Run 3 (Some ''SQLITE_ERROR''), RollBack 3 None]
   \<and> Run 2 None \<in> set [Construct 2 [] :: string event, Run 2 None]"
proof -
  have split:
    "[Construct 2 [], Run 2 None, SetSchemaVersion 2 None,
      Construct 3 [], Run 3 (Some ''SQLITE_ERROR''), RollBack 3 None]
     = [Construct 2 [], Run 2 None] @ SetSchemaVersion 2 None
         # [Construct 3 [] :: string event, Run 3 (Some ''SQLITE_ERROR''), RollBack 3 None]"
    by simp
  from init_set_after_run [OF run_rolled_back split]
  show ?thesis
    by (simp add: run_rolled_back)
qed

text \<open>
  C9: a run of \<open>init\<close> is the same run, with the same result, the same store, the same
  final state and the same calls, when every schema class is replaced by the one that
  disregards its arguments and is constructed with the caller's \<open>roomStore\<close> alone for
  version 8, with the caller's \<open>userStore\<close> alone for version 9, and with no argument for
  any other version; so the step that \<open>init\<close> runs for a version is the one constructed
  that way. And every construction in the list of calls has that argument list.
\<close>

theorem init_collaborators:
  assumes "init M st overrideSchema roomStore userStore w = (res, st', w', evs)"
  shows "init (with_collaborators roomStore userStore M) st overrideSchema roomStore userStore w
           = (res, st', w', evs)
       \<and> (\<forall>v args. Construct v args \<in> set evs \<longrightarrow>
             (v = 8 \<longrightarrow> args = [roomStore])
           \<and> (v = 9 \<longrightarrow> args = [userStore])
           \<and> (v \<noteq> 8 \<and> v \<noteq> 9 \<longrightarrow> args = []))"
proof
  show "init (with_collaborators roomStore userStore M) st overrideSchema roomStore userStore w
          = (res, st', w', evs)"
    using assms by (simp add: init_with_collaborators)
next
  show "\<forall>v args. Construct v args \<in> set evs \<longrightarrow>
          (v = 8 \<longrightarrow> args = [roomStore])
        \<and> (v = 9 \<longrightarrow> args = [userStore])
        \<and> (v \<noteq> 8 \<and> v \<noteq> 9 \<longrightarrow> args = [])"
  proof (intro allI impI)
    fix v args
    assume made: "Construct v args \<in> set evs"
    from assms show "(v = 8 \<longrightarrow> args = [roomStore])
        \<and> (v = 9 \<longrightarrow> args = [userStore])
        \<and> (v \<noteq> 8 \<and> v \<noteq> 9 \<longrightarrow> args = [])"
    proof (cases rule: init_cases)
      case closed
      with made show ?thesis by simp
    next
      case (opened w1)
      from init_loop_constructed [OF opened(2) made]
      show ?thesis by (simp add: constructor_args_def)
    qed
  qed
qed

text \<open>
  Steps that write what they were constructed with into the database, from version 7:
  the database ends with the room store for step 8, the user store for step 9 and nothing
  for step 10.
\<close>

theorem init_collaborators_witness:
  "init probe_modules probe_store 0 ''rooms'' ''users'' \<lparr>version_row = 7, constructed = []\<rparr> =
     (Inr (), probe_store\<lparr>db := Some probe_connector\<rparr>,
      \<lparr>version_row = 10,
       constructed = [(8, [''rooms'']), (9, [''users'']), (10, [])]\<rparr>,
      [Construct 8 [''rooms''], Run 8 None, SetSchemaVersion 8 None,
       Construct 9 [''users''], Run 9 None, SetSchemaVersion 9 None,
       Construct 10 [], Run 10 None, SetSchemaVersion 10 None])
   \<and> init (with_collaborators ''rooms'' ''users'' probe_modules) probe_store 0 ''rooms'' ''users''
        \<lparr>version_row = 7, constructed = []\<rparr> =
     (Inr (), probe_store\<lparr>db := Some probe_connector\<rparr>,
      \<lparr>version_row = 10,
       constructed = [(8, [''rooms'']), (9, [''users'']), (10, [])]\<rparr>,
      [Construct 8 [''rooms''], Run 8 None, SetSchemaVersion 8 None,
       Construct 9 [''users''], Run 9 None, SetSchemaVersion 9 None,
       Construct 10 [], Run 10 None, SetSchemaVersion 10 None])
   \<and> Construct 8 [''rooms''] \<in> set
        [Construct 8 [''rooms''], Run 8 None, SetSchemaVersion 8 None,
         Construct 9 [''users''], Run 9 None, SetSchemaVersion 9 None,
         Construct 10 [], Run 10 None, SetSchemaVersion 10 None]"
  using init_collaborators [OF run_probe] run_probe by simp

subsection \<open>The schema version tracker and the tokens\<close>

text \<open>
  C6: with a connector in place, \<open>getSchemaVersion\<close> is 0 when the query of the control
  table fails and when it returns no row, and the stored version when it returns a row.
  It has no error to return: the type of the model says so, every throw of the source
  being inside the \<open>try\<close>.
\<close>

theorem getSchemaVersion_default:
  assumes "db st = Some d"
  shows "(db_Get_version d w = Inl er \<longrightarrow> getSchemaVersion st w = 0)
       \<and> (db_Get_version d w = Inr None \<longrightarrow> getSchemaVersion st w = 0)
       \<and> (db_Get_version d w = Inr (Some v) \<longrightarrow> getSchemaVersion st w = v)"
  using assms by (simp add: getSchemaVersion_def)

text \<open>
  A database without the control table, one whose control table is empty, and one at
  version 7.
\<close>

theorem getSchemaVersion_default_witness:
  "db (opened_store mem_connector) = Some mem_connector
   \<and> db_Get_version mem_connector fresh_db = Inl ''no such table: schema''
   \<and> getSchemaVersion (opened_store mem_connector) fresh_db = 0
   \<and> db_Get_version mem_connector (fresh_db\<lparr>schema_table := Some []\<rparr>) = Inr None
   \<and> getSchemaVersion (opened_store mem_connector) (fresh_db\<lparr>schema_table := Some []\<rparr>) = 0
   \<and> db_Get_version mem_connector (db_at 7) = Inr (Some 7)
   \<and> getSchemaVersion (opened_store mem_connector) (db_at 7) = 7"
proof -
  have opened: "db (opened_store mem_connector) = Some mem_connector"
    by (simp add: mem_defs)
  have failing: "db_Get_version mem_connector fresh_db = Inl ''no such table: schema''"
    by (simp add: mem_defs)
  have empty: "db_Get_version mem_connector (fresh_db\<lparr>schema_table := Some []\<rparr>) = Inr None"
    by (simp add: mem_defs)
  have stored: "db_Get_version mem_connector (db_at 7) = Inr (Some 7)"
    by (simp add: mem_defs)
  from getSchemaVersion_default [OF opened, of fresh_db "''no such table: schema''"]
    getSchemaVersion_default [OF opened, of "fresh_db\<lparr>schema_table := Some []\<rparr>"]
    getSchemaVersion_default [OF opened, of "db_at 7" _ 7]
    opened failing empty stored
  show ?thesis by simp
qed

text \<open>
  C10: when the query of the token table returns no row for \<open>discordId\<close>, \<open>getToken\<close>
  returns the empty string, not an error and not \<open>null\<close>; and it returns the same in any
  state where the row is there with an empty token, so the result does not tell the two
  apart.
\<close>

theorem getToken_no_row:
  assumes "db st = Some d"
    and "db_Get_token d discordId w = Inr None"
  shows "getToken st discordId w = Inr ''''
       \<and> (\<forall>w2. db_Get_token d discordId w2 = Inr (Some '''')
             \<longrightarrow> getToken st discordId w2 = getToken st discordId w)"
  using assms by (simp add: getToken_def)

text \<open>An empty token table, and the table with an empty token for the same id.\<close>

theorem getToken_no_row_witness:
  "db (opened_store mem_connector) = Some mem_connector
   \<and> db_Get_token mem_connector ''1234'' (db_at 10) = Inr None
   \<and> getToken (opened_store mem_connector) ''1234'' (db_at 10) = Inr ''''
   \<and> db_Get_token mem_connector ''1234''
        ((db_at 10)\<lparr>token_table := Some [(''1234'', '''')]\<rparr>) = Inr (Some '''')
   \<and> getToken (opened_store mem_connector) ''1234''
        ((db_at 10)\<lparr>token_table := Some [(''1234'', '''')]\<rparr>)
       = getToken (opened_store mem_connector) ''1234'' (db_at 10)"
proof -
  have opened: "db (opened_store mem_connector) = Some mem_connector"
    by (simp add: mem_defs)
  have absent: "db_Get_token mem_connector ''1234'' (db_at 10) = Inr None"
    by (simp add: mem_defs)
  have blank: "db_Get_token mem_connector ''1234''
                 ((db_at 10)\<lparr>token_table := Some [(''1234'', '''')]\<rparr>) = Inr (Some '''')"
    by (simp add: mem_defs)
  from getToken_no_row [OF opened absent] opened absent blank
  show ?thesis by simp
qed

subsection \<open>The record gateway\<close>

lemmas gateway_defs = DbToken_def DbBare_def js_strings_def




text \<open>
  C8: \<open>Insert\<close>, \<open>Update\<close> and \<open>Delete\<close> return what the action of the same name of the
  instance returns: the very value it throws if it throws, normally if it does not, with
  the instance and the state as the action left them. \<open>Get\<close> differs: a value that
  \<open>RunQuery\<close> throws becomes \<open>null\<close>, where the log lines can be made.
\<close>

theorem writes_propagate:
  "(fst (data_Insert dbType data w) = Some ex \<longrightarrow> fst (Insert dbType data w) = Inl ex)
   \<and> (fst (data_Insert dbType data w) = None \<longrightarrow> fst (Insert dbType data w) = Inr ())
   \<and> snd (Insert dbType data w) = snd (data_Insert dbType data w)
   \<and> (fst (data_Update dbType data w) = Some ex \<longrightarrow> fst (Update dbType data w) = Inl ex)
   \<and> (fst (data_Update dbType data w) = None \<longrightarrow> fst (Update dbType data w) = Inr ())
   \<and> snd (Update dbType data w) = snd (data_Update dbType data w)
   \<and> (fst (data_Delete dbType data w) = Some ex \<longrightarrow> fst (Delete dbType data w) = Inl ex)
   \<and> (fst (data_Delete dbType data w) = None \<longrightarrow> fst (Delete dbType data w) = Inr ())
   \<and> snd (Delete dbType data w) = snd (data_Delete dbType data w)
   \<and> (params_string S params = Inr line
        \<and> fst (RunQuery dbType (construct dbType) params w) = Some ex
        \<and> thrown_string S ex = Inr reason
        \<longrightarrow> fst (Get S dbType params w) = Inr None)"
  by (simp add: Insert_def Update_def Delete_def Get_def split: prod.splits option.splits)

text \<open>The three writes and the query without the token table, and the writes with it.\<close>

theorem writes_propagate_witness:
  "fst (data_Insert DbToken (construct DbToken) fresh_db)
     = Some (Error ''no such table: discord_id_token'')
   \<and> fst (Insert DbToken (construct DbToken) fresh_db)
       = Inl (Error ''no such table: discord_id_token'')
   \<and> fst (data_Update DbToken (construct DbToken) fresh_db)
       = Some (Error ''no such table: discord_id_token'')
   \<and> fst (Update DbToken (construct DbToken) fresh_db)
       = Inl (Error ''no such table: discord_id_token'')
   \<and> fst (data_Delete DbToken (construct DbToken) fresh_db)
       = Some (Error ''no such table: discord_id_token'')
   \<and> fst (Delete DbToken (construct DbToken) fresh_db)
       = Inl (Error ''no such table: discord_id_token'')
   \<and> params_string js_strings (Params ''1234'') = Inr ''[object Object]''
   \<and> fst (RunQuery DbToken (construct DbToken) (Params ''1234'') fresh_db)
       = Some (Error ''no such table: discord_id_token'')
   \<and> thrown_string js_strings (Error ''no such table: discord_id_token'')
       = Inr ''Error: no such table: discord_id_token''
   \<and> fst (Get js_strings DbToken (Params ''1234'') fresh_db) = Inr None
   \<and> fst (data_Insert DbToken (construct DbToken) (db_at 10)) = None
   \<and> fst (Insert DbToken (construct DbToken) (db_at 10)) = Inr ()
   \<and> fst (data_Update DbToken (construct DbToken) (db_at 10)) = None
   \<and> fst (Update DbToken (construct DbToken) (db_at 10)) = Inr ()
   \<and> fst (data_Delete DbToken (construct DbToken) (db_at 10)) = None
   \<and> fst (Delete DbToken (construct DbToken) (db_at 10)) = Inr ()"
proof -
  have failing:
    "fst (data_Insert DbToken (construct DbToken) fresh_db)
       = Some (Error ''no such table: discord_id_token'')"
    "fst (data_Update DbToken (construct DbToken) fresh_db)
       = Some (Error ''no such table: discord_id_token'')"
    "fst (data_Delete DbToken (construct DbToken) fresh_db)
       = Some (Error ''no such table: discord_id_token'')"
    "fst (RunQuery DbToken (construct DbToken) (Params ''1234'') fresh_db)
       = Some (Error ''no such table: discord_id_token'')"
    by (simp_all add: gateway_defs mem_defs)
  have passing:
    "fst (data_Insert DbToken (construct DbToken) (db_at 10)) = None"
    "fst (data_Update DbToken (construct DbToken) (db_at 10)) = None"
    "fst (data_Delete DbToken (construct DbToken) (db_at 10)) = None"
    by (simp_all add: gateway_defs mem_defs)
  have strings:
    "params_string js_strings (Params ''1234'') = Inr ''[object Object]''"
    "thrown_string js_strings (Error ''no such table: discord_id_token'')
       = Inr ''Error: no such table: discord_id_token''"
    by (simp_all add: js_strings_def)
  from writes_propagate
         [of DbToken "construct DbToken" fresh_db "Error ''no such table: discord_id_token''"
             js_strings "Params ''1234''" "''[object Object]''"
             "''Error: no such table: discord_id_token''"]
       writes_propagate [of DbToken "construct DbToken" "db_at 10"]
       failing passing strings
  show ?thesis by simp
qed

subsection \<open>The backup\<close>

text \<open>
  Whenever the database file exists, and is not the in-memory database, the backup file
  holds its bytes after \<open>backupDatabase\<close>, whether or not there was a backup before.
\<close>

lemma backupDatabase_copies:
  assumes "filename cfg = Some file" and "file \<noteq> '':memory:''" and "fs file = Some bytes"
  shows "fst (snd (backupDatabase cfg fs)) (file @ ''.backup'') = Some bytes"
  using assms by (simp add: backupDatabase_def pipe_def Let_def)

text \<open>
  C1 says that \<open>backupDatabase\<close> leaves an existing backup as it is. It does not. A first
  call, with no backup there, logs that it is not backing up and writes the backup; a
  second call, after the database file has been written to, finds the backup, logs nothing,
  and replaces the bytes of the first backup with those of the database as it is now.
\<close>

theorem backupDatabase_overwrites:
  "fst (snd (backupDatabase sqlite_config files_before)) ''discord.db.backup''
     = Some ''rows at schema 9''
   \<and> snd (snd (backupDatabase sqlite_config files_before))
       = [(''warn'', ''NOT backing up database while a file already exists'')]
   \<and> files_after ''discord.db.backup'' = Some ''rows at schema 9''
   \<and> fst (backupDatabase sqlite_config files_after) = Inr Undefined
   \<and> snd (snd (backupDatabase sqlite_config files_after)) = []
   \<and> fst (snd (backupDatabase sqlite_config files_after)) ''discord.db.backup''
       = Some ''rows at schema 10''"
  by (simp add: backupDatabase_def pipe_def sqlite_config_def files_before_def files_after_def
      Let_def)

end
